theory Spec2Isabelle
  imports Complex_Main "HOL-Library.Word"
begin

unbundle bit_operations_syntax

section \<open>MAX31855 driver: data model\<close>

text \<open>
  The driver (\<^verbatim>\<open>max31855.py\<close>) reads one 4-byte frame from the converter over SPI and
  decodes it. The buffer is \<^verbatim>\<open>bytearray(4)\<close>, which \<^verbatim>\<open>spi.readinto\<close> fills in
  place, so a frame is exactly four bytes. Python integers are unbounded and are
  modelled as \<open>int\<close>, with \<open>AND\<close> for \<^verbatim>\<open>&\<close> and \<open>drop_bit\<close> for \<^verbatim>\<open>>>\<close>.

  Temperatures are Python floats obtained as \<^verbatim>\<open>n * 0.25\<close> and \<^verbatim>\<open>n * 0.0625\<close> with
  \<open>n\<close> an integer of magnitude at most \<open>2 ^ 14\<close>. Both factors are powers of two, so the
  floating-point product is the exact dyadic rational; temperatures are modelled as
  \<open>real\<close> numbers carrying that exact value.

  The chip-select toggles and the settle delay of \<^verbatim>\<open>read_raw\<close> have no influence on
  the returned value and are left out; the frame delivered by the bus is the argument.
\<close>

type_synonym byte = "8 word"

type_synonym frame = "byte \<times> byte \<times> byte \<times> byte"

definition FAULT_OPEN :: int where
  "FAULT_OPEN = 0x01"

definition FAULT_GND :: int where
  "FAULT_GND = 0x02"

definition FAULT_VCC :: int where
  "FAULT_VCC = 0x04"

definition FAULT_GENERIC :: int where
  "FAULT_GENERIC = 0x10000"

text \<open>The dictionary returned by \<^verbatim>\<open>read_all\<close>, one field per key.\<close>

record reading =
  tc_temp :: "real option"
  internal_temp :: "real option"
  fault :: "string option"
  raw :: "int option"
  connected_flag :: bool

text \<open>
  The three kinds of value \<^verbatim>\<open>read_temp_c\<close> returns:
  \<^verbatim>\<open>False\<close>, \<^verbatim>\<open>None\<close> or a float.
\<close>

datatype py_value = PyFalse | PyNone | PyFloat real

section \<open>Helpers of the Python runtime\<close>

text \<open>\<^verbatim>\<open>struct.unpack(">I", data)[0]\<close>: four bytes, most significant first.\<close>

definition unpack_be32 :: "frame \<Rightarrow> int" where
  "unpack_be32 data =
     (case data of (b0, b1, b2, b3) \<Rightarrow>
        uint b0 * 2 ^ 24 + uint b1 * 2 ^ 16 + uint b2 * 2 ^ 8 + uint b3)"

text \<open>\<^verbatim>\<open>sep.join(xs)\<close> on strings.\<close>

fun join_str :: "string \<Rightarrow> string list \<Rightarrow> string" where
  "join_str sep [] = []"
| "join_str sep [x] = x"
| "join_str sep (x # y # ys) = x @ sep @ join_str sep (y # ys)"

text \<open>
  Truth value of an object that is \<^verbatim>\<open>None\<close> or a string: \<^verbatim>\<open>None\<close> and the empty
  string are false.
\<close>

definition truthy :: "string option \<Rightarrow> bool" where
  "truthy v = (case v of None \<Rightarrow> False | Some s \<Rightarrow> s \<noteq> [])"

section \<open>The driver\<close>

text \<open>\<^verbatim>\<open>read_raw\<close>: the pair \<^verbatim>\<open>(value, error)\<close>, one of them \<^verbatim>\<open>None\<close>.\<close>

definition read_raw :: "frame \<Rightarrow> int option \<times> string option" where
  "read_raw data =
     (if data = (0x00, 0x00, 0x00, 0x00) then (None, Some ''No SPI response (disconnected)'')
      else if data = (0xff, 0xff, 0xff, 0xff) then (None, Some ''SPI bus error (all high)'')
      else (Some (unpack_be32 data), None))"

definition get_fault_string :: "int \<Rightarrow> string option" where
  "get_fault_string raw_value =
     (let faults0 = [];
          faults1 = (if raw_value AND FAULT_OPEN \<noteq> 0 then faults0 @ [''Open Circuit''] else faults0);
          faults2 = (if raw_value AND FAULT_GND \<noteq> 0 then faults1 @ [''Short to GND''] else faults1);
          faults3 = (if raw_value AND FAULT_VCC \<noteq> 0 then faults2 @ [''Short to VCC''] else faults2)
      in if faults3 \<noteq> [] then Some (join_str '' + '' faults3)
         else if raw_value AND FAULT_GENERIC \<noteq> 0 then Some ''Unknown Fault''
         else None)"

text \<open>The dictionary \<^verbatim>\<open>read_all\<close> starts from.\<close>

definition init_result :: "int option \<Rightarrow> reading" where
  "init_result raw_value =
     \<lparr>tc_temp = None, internal_temp = None, fault = None, raw = raw_value,
      connected_flag = (raw_value \<noteq> None)\<rparr>"

text \<open>
  The part of \<^verbatim>\<open>read_all\<close> after the connection check: the fault check, the
  thermocouple channel and the internal channel, each updating \<^verbatim>\<open>result\<close>.
\<close>

definition read_all_decode :: "int \<Rightarrow> reading \<Rightarrow> reading" where
  "read_all_decode raw_value result0 =
     (let result1 = (if raw_value AND FAULT_GENERIC \<noteq> 0
                     then result0\<lparr>fault := get_fault_string raw_value\<rparr> else result0);
          result2 = (if \<not> truthy (fault result1) then
                       (let tc_raw0 = drop_bit 18 raw_value AND 0x3FFF;
                            tc_raw = (if raw_value AND 0x80000000 \<noteq> 0
                                      then tc_raw0 - 0x4000 else tc_raw0)
                        in result1\<lparr>tc_temp := Some (of_int tc_raw * 0.25)\<rparr>)
                     else result1);
          internal_raw0 = drop_bit 4 raw_value AND 0x7FF;
          internal_raw = (if raw_value AND 0x8000 \<noteq> 0
                          then internal_raw0 - 0x800 else internal_raw0)
      in result2\<lparr>internal_temp := Some (of_int internal_raw * 0.0625)\<rparr>)"

text \<open>
  \<^verbatim>\<open>read_all\<close>. The flag \<^verbatim>\<open>connected\<close> is \<^verbatim>\<open>raw_value is not None\<close>, so past the
  connection check \<^verbatim>\<open>raw_value\<close> is an integer; the last branch below is never taken.
\<close>

definition read_all :: "frame \<Rightarrow> reading" where
  "read_all data =
     (case read_raw data of (raw_value, error) \<Rightarrow>
        (let result = init_result raw_value
         in if \<not> connected_flag result then result\<lparr>fault := error\<rparr>
            else (case raw_value of
                    Some v \<Rightarrow> read_all_decode v result
                  | None \<Rightarrow> result)))"

text \<open>
  \<^verbatim>\<open>read_temp_c\<close> returns its value and prints one line when the chip reports a fault;
  the printed lines are the second component.
\<close>

definition read_temp_c :: "frame \<Rightarrow> py_value \<times> string list" where
  "read_temp_c frm =
     (let data = read_all frm
      in if \<not> connected_flag data then (PyFalse, [])
         else if truthy (fault data)
              then (PyNone, [''MAX31855 Fault: '' @ (case fault data of Some s \<Rightarrow> s | None \<Rightarrow> ''None'')])
         else ((case tc_temp data of Some t \<Rightarrow> PyFloat t | None \<Rightarrow> PyNone), []))"

section \<open>Bit tests and masks on Python integers\<close>

lemma and_pow2_test: "((x::int) AND 2 ^ n \<noteq> 0) = bit x n"
  by (simp add: and_exp_eq_0_iff_not_bit)

lemma test_bit0: "((x::int) AND FAULT_OPEN \<noteq> 0) = bit x 0"
  using and_pow2_test [of x 0] by (simp add: FAULT_OPEN_def)

lemma test_bit1: "((x::int) AND FAULT_GND \<noteq> 0) = bit x 1"
  using and_pow2_test [of x 1] by (simp add: FAULT_GND_def)

lemma test_bit2: "((x::int) AND FAULT_VCC \<noteq> 0) = bit x 2"
  using and_pow2_test [of x 2] by (simp add: FAULT_VCC_def)

lemma test_bit16: "((x::int) AND FAULT_GENERIC \<noteq> 0) = bit x 16"
  using and_pow2_test [of x 16] by (simp add: FAULT_GENERIC_def)

lemma test_bit15: "((x::int) AND 0x8000 \<noteq> 0) = bit x 15"
  using and_pow2_test [of x 15] by simp

lemma test_bit31: "((x::int) AND 0x80000000 \<noteq> 0) = bit x 31"
  using and_pow2_test [of x 31] by simp

lemma and_mask14: "(x::int) AND 0x3FFF = x mod 2 ^ 14"
proof -
  have "(0x3FFF::int) = mask 14" by (simp add: mask_eq_exp_minus_1)
  then show ?thesis by (simp only: take_bit_eq_mod flip: take_bit_eq_mask)
qed

lemma and_mask11: "(x::int) AND 0x7FF = x mod 2 ^ 11"
proof -
  have "(0x7FF::int) = mask 11" by (simp add: mask_eq_exp_minus_1)
  then show ?thesis by (simp only: take_bit_eq_mod flip: take_bit_eq_mask)
qed

lemma tc_field: "drop_bit 18 (x::int) AND 0x3FFF = (x div 2 ^ 18) mod 2 ^ 14"
  by (simp only: and_mask14 drop_bit_eq_div)

lemma internal_field: "drop_bit 4 (x::int) AND 0x7FF = (x div 2 ^ 4) mod 2 ^ 11"
  by (simp only: and_mask11 drop_bit_eq_div)

section \<open>The fault string\<close>

lemma get_fault_string_bits:
  "get_fault_string v =
     (if bit v 0 \<or> bit v 1 \<or> bit v 2 then
        Some (join_str '' + ''
        ((if bit v 0 then [''Open Circuit''] else []) @
         (if bit v 1 then [''Short to GND''] else []) @
         (if bit v 2 then [''Short to VCC''] else [])))
      else if bit v 16 then Some ''Unknown Fault'' else None)"
  unfolding get_fault_string_def Let_def test_bit0 test_bit1 test_bit2 test_bit16
  by simp

lemma join_causes_nonempty:
  "bit v 0 \<or> bit v 1 \<or> bit v 2 \<Longrightarrow>
   join_str '' + ''
     ((if bit v 0 then [''Open Circuit''] else []) @
      (if bit v 1 then [''Short to GND''] else []) @
      (if bit v 2 then [''Short to VCC''] else [])) \<noteq> []"
  by (cases "bit v 0"; cases "bit v 1"; cases "bit v 2"; simp)

lemma truthy_get_fault_string:
  "truthy (get_fault_string v) = (bit v 0 \<or> bit v 1 \<or> bit v 2 \<or> bit v 16)"
  using join_causes_nonempty [of v]
  by (simp add: get_fault_string_bits truthy_def)

section \<open>The decoding part of \<^verbatim>\<open>read_all\<close>, field by field\<close>

lemma decode_fault:
  "fault (read_all_decode v (init_result w)) =
     (if bit v 16 then get_fault_string v else None)"
  by (simp add: read_all_decode_def Let_def test_bit16 init_result_def)

lemma decode_tc_temp:
  "tc_temp (read_all_decode v (init_result w)) =
     (if bit v 16 then None
      else Some (of_int ((v div 2 ^ 18) mod 2 ^ 14 - (if bit v 31 then 0x4000 else 0)) * 0.25))"
proof (cases "bit v 16")
  case True
  then have "truthy (get_fault_string v)" by (simp add: truthy_get_fault_string)
  with True show ?thesis
    unfolding read_all_decode_def Let_def test_bit16 by (simp add: init_result_def)
next
  case False
  have "\<not> truthy None" by (simp add: truthy_def)
  with False show ?thesis
    unfolding read_all_decode_def Let_def test_bit16 test_bit31 tc_field
    by (simp add: init_result_def)
qed

lemma decode_internal_temp:
  "internal_temp (read_all_decode v r) =
     Some (of_int ((v div 2 ^ 4) mod 2 ^ 11 - (if bit v 15 then 0x800 else 0)) * 0.0625)"
  unfolding read_all_decode_def Let_def test_bit15 internal_field
  by simp

lemma decode_raw_connected:
  "raw (read_all_decode v r) = raw r \<and> connected_flag (read_all_decode v r) = connected_flag r"
  by (simp add: read_all_decode_def Let_def)

lemma read_all_accepted:
  "data \<noteq> (0, 0, 0, 0) \<Longrightarrow> data \<noteq> (0xff, 0xff, 0xff, 0xff) \<Longrightarrow>
   read_all data = read_all_decode (unpack_be32 data) (init_result (Some (unpack_be32 data)))"
  by (simp add: read_all_def read_raw_def init_result_def)

lemma read_all_rejected:
  "data = (0, 0, 0, 0) \<or> data = (0xff, 0xff, 0xff, 0xff) \<Longrightarrow>
   read_all data = (init_result None)\<lparr>fault := snd (read_raw data)\<rparr>"
  by (auto simp add: read_all_def read_raw_def init_result_def)

lemma read_all_connected_iff:
  "connected_flag (read_all data) = (data \<noteq> (0, 0, 0, 0) \<and> data \<noteq> (0xff, 0xff, 0xff, 0xff))"
  by (auto simp add: read_all_def read_raw_def init_result_def decode_raw_connected)

section \<open>Big-endian unpacking\<close>

lemma uint_byte_bounds: "0 \<le> uint (b::byte) \<and> uint b \<le> 255"
  using uint_lt2p [of b] by simp

lemma unpack_be32_range: "0 \<le> unpack_be32 data \<and> unpack_be32 data < 2 ^ 32"
proof -
  obtain b0 b1 b2 b3 where d: "data = (b0, b1, b2, b3)" by (cases data) auto
  show ?thesis
    using uint_byte_bounds [of b0] uint_byte_bounds [of b1]
      uint_byte_bounds [of b2] uint_byte_bounds [of b3]
    by (simp add: d unpack_be32_def)
qed

lemma div_mult_add: "0 \<le> r \<Longrightarrow> r < m \<Longrightarrow> (q * m + r) div m = (q::int)"
  by (simp add: div_pos_pos_trivial)

lemma unpack_be32_bytes:
  "(word_of_int (drop_bit 24 (unpack_be32 data)), word_of_int (drop_bit 16 (unpack_be32 data)),
    word_of_int (drop_bit 8 (unpack_be32 data)), word_of_int (unpack_be32 data)) = data"
proof -
  obtain b0 b1 b2 b3 where d: "data = (b0, b1, b2, b3)" by (cases data) auto
  let ?v = "unpack_be32 data"
  have v: "?v = uint b0 * 2 ^ 24 + uint b1 * 2 ^ 16 + uint b2 * 2 ^ 8 + uint b3"
    by (simp add: d unpack_be32_def)
  note bs = uint_byte_bounds [of b0] uint_byte_bounds [of b1]
      uint_byte_bounds [of b2] uint_byte_bounds [of b3]
  have r24: "0 \<le> uint b1 * 2 ^ 16 + uint b2 * 2 ^ 8 + uint b3"
    "uint b1 * 2 ^ 16 + uint b2 * 2 ^ 8 + uint b3 < 2 ^ 24" using bs by simp_all
  have r16: "0 \<le> uint b2 * 2 ^ 8 + uint b3" "uint b2 * 2 ^ 8 + uint b3 < 2 ^ 16"
    using bs by simp_all
  have r8: "0 \<le> uint b3" "uint b3 < 2 ^ 8" using bs by simp_all
  have "?v = uint b0 * 2 ^ 24 + (uint b1 * 2 ^ 16 + uint b2 * 2 ^ 8 + uint b3)"
    unfolding v by simp
  then have d24: "?v div 2 ^ 24 = uint b0"
    by (simp only: div_mult_add [OF r24])
  have "?v = (uint b0 * 2 ^ 8 + uint b1) * 2 ^ 16 + (uint b2 * 2 ^ 8 + uint b3)"
    unfolding v by simp
  then have d16: "?v div 2 ^ 16 = uint b0 * 2 ^ 8 + uint b1"
    by (simp only: div_mult_add [OF r16])
  have "?v = (uint b0 * 2 ^ 16 + uint b1 * 2 ^ 8 + uint b2) * 2 ^ 8 + uint b3"
    unfolding v by simp
  then have d8: "?v div 2 ^ 8 = uint b0 * 2 ^ 16 + uint b1 * 2 ^ 8 + uint b2"
    by (simp only: div_mult_add [OF r8])
  have w0: "(word_of_int (drop_bit 24 ?v) :: byte) = b0"
    by (simp only: drop_bit_eq_div d24 word_of_int_uint)
  have z: "(2 ^ 8 :: byte) = 0" "(2 ^ 16 :: byte) = 0" "(2 ^ 24 :: byte) = 0" by simp_all
  have w1: "(word_of_int (drop_bit 16 ?v) :: byte) = b1"
    unfolding drop_bit_eq_div d16 by (simp only: of_int_add of_int_mult of_int_power of_int_numeral z word_of_int_uint) simp
  have w2: "(word_of_int (drop_bit 8 ?v) :: byte) = b2"
    unfolding drop_bit_eq_div d8 by (simp only: of_int_add of_int_mult of_int_power of_int_numeral z word_of_int_uint) simp
  have w3: "(word_of_int ?v :: byte) = b3"
    unfolding v by (simp only: of_int_add of_int_mult of_int_power of_int_numeral z word_of_int_uint) simp
  show ?thesis using w0 w1 w2 w3 by (simp add: d)
qed

lemma unpack_be32_zero_iff: "unpack_be32 data = 0 \<longleftrightarrow> data = (0, 0, 0, 0)"
proof
  assume "unpack_be32 data = 0"
  with unpack_be32_bytes [of data] show "data = (0, 0, 0, 0)" by simp
next
  assume "data = (0, 0, 0, 0)"
  then show "unpack_be32 data = 0" by (simp add: unpack_be32_def)
qed

lemma unpack_be32_ones_iff:
  "unpack_be32 data = 0xFFFFFFFF \<longleftrightarrow> data = (0xff, 0xff, 0xff, 0xff)"
proof
  assume a: "unpack_be32 data = 0xFFFFFFFF"
  have "data = (word_of_int (drop_bit 24 (0xFFFFFFFF::int)), word_of_int (drop_bit 16 (0xFFFFFFFF::int)),
      word_of_int (drop_bit 8 (0xFFFFFFFF::int)), word_of_int (0xFFFFFFFF::int))"
    using unpack_be32_bytes [of data] unfolding a by (rule sym)
  also have "\<dots> = (0xff, 0xff, 0xff, 0xff)" by simp
  finally show "data = (0xff, 0xff, 0xff, 0xff)" .
next
  assume "data = (0xff, 0xff, 0xff, 0xff)"
  then show "unpack_be32 data = 0xFFFFFFFF" by (simp add: unpack_be32_def)
qed


section \<open>The whole of \<^verbatim>\<open>read_all\<close> and \<^verbatim>\<open>read_temp_c\<close>\<close>

lemma read_all_raw_connected:
  "connected_flag (read_all data) \<Longrightarrow> raw (read_all data) = Some (unpack_be32 data)"
  by (simp add: read_all_connected_iff read_all_accepted decode_raw_connected init_result_def)

lemma read_all_faulted_example:
  "read_all (0x01, 0x91, 0xC0, 0x07) =
     \<lparr>tc_temp = None, internal_temp = Some (- 64),
      fault = Some ''Open Circuit + Short to GND + Short to VCC'',
      raw = Some 0x0191C007, connected_flag = True\<rparr>"
  by (simp add: read_all_def read_raw_def unpack_be32_def init_result_def read_all_decode_def
      truthy_def get_fault_string_def FAULT_GENERIC_def FAULT_OPEN_def FAULT_GND_def FAULT_VCC_def)

lemma get_fault_string_not_transport:
  "get_fault_string v \<noteq> Some ''No SPI response (disconnected)''
   \<and> get_fault_string v \<noteq> Some ''SPI bus error (all high)''"
  unfolding get_fault_string_bits
  by (cases "bit v 0"; cases "bit v 1"; cases "bit v 2"; simp)

lemma read_temp_c_value:
  "fst (read_temp_c data) =
     (if \<not> connected_flag (read_all data) then PyFalse
      else if truthy (fault (read_all data)) then PyNone
      else (case tc_temp (read_all data) of Some t \<Rightarrow> PyFloat t | None \<Rightarrow> PyNone))"
  by (simp add: read_temp_c_def Let_def)

lemma read_all_fault_connected:
  "connected_flag (read_all data) \<Longrightarrow>
   fault (read_all data) = (if bit (unpack_be32 data) 16 then get_fault_string (unpack_be32 data) else None)
   \<and> tc_temp (read_all data) =
     (if bit (unpack_be32 data) 16 then None
      else Some (of_int ((unpack_be32 data div 2 ^ 18) mod 2 ^ 14
                         - (if bit (unpack_be32 data) 31 then 0x4000 else 0)) * 0.25))"
  by (simp add: read_all_connected_iff read_all_accepted decode_fault decode_tc_temp)

lemma internal_raw_range:
  "- 2048 \<le> (v div 2 ^ 4) mod 2 ^ 11 - (if bit v 15 then 0x800 else 0)
   \<and> (v div 2 ^ 4) mod 2 ^ 11 - (if bit v 15 then 0x800 else 0) \<le> (2047::int)"
proof -
  define m where "m = (v div 2 ^ 4) mod 2 ^ 11"
  have "0 \<le> m" "m < 2 ^ 11" by (simp_all add: m_def)
  then have "- 2048 \<le> m - (if bit v 15 then 0x800 else 0)
      \<and> m - (if bit v 15 then 0x800 else 0) \<le> 2047" by auto
  then show ?thesis unfolding m_def .
qed

lemma tc_sign_bit: "bit ((v div 2 ^ 18) mod 2 ^ 14) 13 = bit (v::int) 31"
proof -
  have "(v div 2 ^ 18) mod 2 ^ 14 = take_bit 14 (drop_bit 18 v)"
    by (simp only: take_bit_eq_mod drop_bit_eq_div)
  then show ?thesis by (simp add: bit_take_bit_iff bit_drop_bit_eq)
qed

lemma bit13_iff: "0 \<le> m \<Longrightarrow> m < 2 ^ 14 \<Longrightarrow> bit (m::int) 13 \<longleftrightarrow> 8192 \<le> m"
proof -
  assume m: "0 \<le> m" "m < 2 ^ 14"
  show ?thesis
  proof (cases "8192 \<le> m")
    case True
    with m have "m div 2 ^ 13 = 1" by (simp add: div_mult_add [of "m - 8192" "2 ^ 13" 1, simplified])
    with True show ?thesis by (simp add: bit_iff_odd)
  next
    case False
    with m have "m div 2 ^ 13 = 0" by (simp add: div_pos_pos_trivial)
    with False show ?thesis by (simp add: bit_iff_odd)
  qed
qed

lemma tc_raw_range:
  "- 8192 \<le> (v div 2 ^ 18) mod 2 ^ 14 - (if bit v 31 then 0x4000 else 0)
   \<and> (v div 2 ^ 18) mod 2 ^ 14 - (if bit v 31 then 0x4000 else 0) \<le> (8191::int)"
proof -
  define m where "m = (v div 2 ^ 18) mod 2 ^ 14"
  have m: "0 \<le> m" "m < 2 ^ 14" by (simp_all add: m_def)
  have "bit v 31 \<longleftrightarrow> 8192 \<le> m"
    using bit13_iff [OF m] tc_sign_bit [of v] by (simp add: m_def)
  with m have "- 8192 \<le> m - (if bit v 31 then 0x4000 else 0)
      \<and> m - (if bit v 31 then 0x4000 else 0) \<le> 8191" by auto
  then show ?thesis unfolding m_def .
qed

lemma read_all_clean_example:
  "read_all (0x01, 0x90, 0xC0, 0x07) =
     \<lparr>tc_temp = Some 25, internal_temp = Some (- 64), fault = None,
      raw = Some 0x0190C007, connected_flag = True\<rparr>"
  by (simp add: read_all_def read_raw_def unpack_be32_def init_result_def read_all_decode_def
      truthy_def FAULT_GENERIC_def)

section \<open>Claims\<close>

text \<open>
  C1. \<^verbatim>\<open>read_raw\<close> reports a transport error exactly on the all-zero frame (message
  "No SPI response (disconnected)") and on the all-ones frame 0xFFFFFFFF (message
  "SPI bus error (all high)"). Every other frame is returned as its big-endian unsigned
  32-bit value: the value lies in \<open>[0, 2^32)\<close> and its four bytes, most significant
  first, are the bytes of the frame.
\<close>

theorem read_raw_classifies_frame:
  "read_raw data =
     (if unpack_be32 data = 0 then (None, Some ''No SPI response (disconnected)'')
      else if unpack_be32 data = 0xFFFFFFFF then (None, Some ''SPI bus error (all high)'')
      else (Some (unpack_be32 data), None))
   \<and> (unpack_be32 data = 0 \<longleftrightarrow> data = (0x00, 0x00, 0x00, 0x00))
   \<and> (unpack_be32 data = 0xFFFFFFFF \<longleftrightarrow> data = (0xff, 0xff, 0xff, 0xff))
   \<and> 0 \<le> unpack_be32 data \<and> unpack_be32 data < 2 ^ 32
   \<and> (word_of_int (drop_bit 24 (unpack_be32 data)), word_of_int (drop_bit 16 (unpack_be32 data)),
      word_of_int (drop_bit 8 (unpack_be32 data)), word_of_int (unpack_be32 data)) = data"
proof -
  have "read_raw data =
     (if unpack_be32 data = 0 then (None, Some ''No SPI response (disconnected)'')
      else if unpack_be32 data = 0xFFFFFFFF then (None, Some ''SPI bus error (all high)'')
      else (Some (unpack_be32 data), None))"
    unfolding unpack_be32_zero_iff unpack_be32_ones_iff by (simp add: read_raw_def)
  then show ?thesis
    using unpack_be32_zero_iff [of data] unpack_be32_ones_iff [of data]
      unpack_be32_range [of data] unpack_be32_bytes [of data]
    by blast
qed

text \<open>
  C2. On every value with bit 16 clear the decoding part of \<^verbatim>\<open>read_all\<close> leaves the
  fault empty and sets the thermocouple temperature to the 14-bit field of bits 31..18,
  minus 0x4000 when bit 31 is set, times 0.25, whatever bits 0..2 are. (\<^verbatim>\<open>read_all\<close>
  runs this part on exactly the frames \<^verbatim>\<open>read_raw\<close> accepts, by \<open>read_all_accepted\<close>.)
\<close>

theorem decode_bit16_clear:
  assumes "\<not> bit v 16"
  shows "fault (read_all_decode v (init_result (Some v))) = None \<and>
         tc_temp (read_all_decode v (init_result (Some v))) =
           Some (of_int ((v div 2 ^ 18) mod 2 ^ 14 - (if bit v 31 then 0x4000 else 0)) * 0.25)"
  using assms by (simp add: decode_fault decode_tc_temp)

theorem decode_bit16_clear_witness:
  "\<not> bit (0xFD800007::int) 16 \<and> bit (0xFD800007::int) 0 \<and> bit (0xFD800007::int) 1
   \<and> bit (0xFD800007::int) 2
   \<and> fault (read_all_decode 0xFD800007 (init_result (Some 0xFD800007))) = None
   \<and> tc_temp (read_all_decode 0xFD800007 (init_result (Some 0xFD800007))) = Some (- 40)"
proof -
  have h: "\<not> bit (0xFD800007::int) 16" by simp
  show ?thesis using h decode_bit16_clear [OF h] by simp
qed

text \<open>
  C3, amended. On a value with bit 16 clear \<^verbatim>\<open>get_fault_string\<close> returns \<^verbatim>\<open>None\<close>
  exactly when bits 0..2 are all clear, and otherwise the names of the set bits joined
  in bit order. The gate on bit 16 is the test \<^verbatim>\<open>read_all\<close> makes before it calls
  \<^verbatim>\<open>get_fault_string\<close>: the decoded fault is empty on every value with bit 16 clear.
\<close>

theorem get_fault_string_bit16_clear:
  assumes "\<not> bit v 16"
  shows "get_fault_string v =
           (if bit v 0 \<or> bit v 1 \<or> bit v 2 then
              Some (join_str '' + ''
                ((if bit v 0 then [''Open Circuit''] else []) @
                 (if bit v 1 then [''Short to GND''] else []) @
                 (if bit v 2 then [''Short to VCC''] else [])))
            else None)
         \<and> fault (read_all_decode v (init_result (Some v))) = None"
  using assms by (simp add: get_fault_string_bits decode_fault)

theorem get_fault_string_bit16_clear_witness:
  "\<not> bit (0x00000005::int) 16
   \<and> get_fault_string 0x00000005 = Some ''Open Circuit + Short to VCC''
   \<and> get_fault_string 0xFD800000 = None
   \<and> fault (read_all_decode 0x00000005 (init_result (Some 0x00000005))) = None"
proof -
  have h: "\<not> bit (0x00000005::int) 16" by simp
  have k: "\<not> bit (0xFD800000::int) 16" by simp
  show ?thesis
    using h get_fault_string_bit16_clear [OF h] get_fault_string_bit16_clear [OF k] by simp
qed

text \<open>
  C3, as stated, fails: \<^verbatim>\<open>get_fault_string\<close> tests bits 0..2 before bit 16, so on
  the value 1 (bit 16 clear, bit 0 set) it returns "Open Circuit".
\<close>

theorem get_fault_string_ungated_counterexample:
  "\<not> bit (0x00000001::int) 16 \<and> get_fault_string 0x00000001 = Some ''Open Circuit''
   \<and> get_fault_string 0x00000001 \<noteq> None"
  by (simp add: get_fault_string_def FAULT_OPEN_def FAULT_GND_def FAULT_VCC_def)

text \<open>
  C4. On every value with bit 16 set and one of bits 0..2 set, the decoding part of
  \<^verbatim>\<open>read_all\<close> reports as fault the names of exactly the set bits among open
  circuit (bit 0), short to GND (bit 1) and short to VCC (bit 2), joined with " + " in
  bit order, and leaves the thermocouple temperature absent.
\<close>

theorem decode_specific_faults:
  assumes "bit v 16" and "bit v 0 \<or> bit v 1 \<or> bit v 2"
  shows "fault (read_all_decode v (init_result (Some v))) =
           Some (join_str '' + ''
             ((if bit v 0 then [''Open Circuit''] else []) @
              (if bit v 1 then [''Short to GND''] else []) @
              (if bit v 2 then [''Short to VCC''] else [])))
         \<and> tc_temp (read_all_decode v (init_result (Some v))) = None"
  using assms by (simp add: decode_fault decode_tc_temp get_fault_string_bits)

theorem decode_specific_faults_witness:
  "bit (0x00010005::int) 16 \<and> (bit (0x00010005::int) 0 \<or> bit (0x00010005::int) 1 \<or> bit (0x00010005::int) 2)
   \<and> fault (read_all_decode 0x00010005 (init_result (Some 0x00010005))) =
       Some ''Open Circuit + Short to VCC''
   \<and> tc_temp (read_all_decode 0x00010005 (init_result (Some 0x00010005))) = None"
proof -
  have h: "bit (0x00010005::int) 16" by simp
  have k: "bit (0x00010005::int) 0 \<or> bit (0x00010005::int) 1 \<or> bit (0x00010005::int) 2" by simp
  show ?thesis using h k decode_specific_faults [OF h k] by simp
qed

text \<open>
  C5. On every value with bit 16 set and bits 0, 1 and 2 clear, the decoding part of
  \<^verbatim>\<open>read_all\<close> reports the fault "Unknown Fault" and leaves the thermocouple
  temperature absent.
\<close>

theorem decode_unknown_fault:
  assumes "bit v 16" and "\<not> bit v 0" and "\<not> bit v 1" and "\<not> bit v 2"
  shows "fault (read_all_decode v (init_result (Some v))) = Some ''Unknown Fault''
         \<and> tc_temp (read_all_decode v (init_result (Some v))) = None"
  using assms by (simp add: decode_fault decode_tc_temp get_fault_string_bits)

theorem decode_unknown_fault_witness:
  "bit (0x01910000::int) 16 \<and> \<not> bit (0x01910000::int) 0 \<and> \<not> bit (0x01910000::int) 1
   \<and> \<not> bit (0x01910000::int) 2
   \<and> fault (read_all_decode 0x01910000 (init_result (Some 0x01910000))) = Some ''Unknown Fault''
   \<and> tc_temp (read_all_decode 0x01910000 (init_result (Some 0x01910000))) = None"
proof -
  have h: "bit (0x01910000::int) 16" "\<not> bit (0x01910000::int) 0"
    "\<not> bit (0x01910000::int) 1" "\<not> bit (0x01910000::int) 2" by simp_all
  show ?thesis using h decode_unknown_fault [OF h] by simp
qed

text \<open>
  C6. Whenever \<^verbatim>\<open>read_all\<close> reports the sensor connected, the internal temperature
  is present, with or without a fault, and equals the 11-bit field of bits 14..4, minus
  0x800 when bit 15 is set, times 0.0625.
\<close>

theorem read_all_internal_temp:
  assumes "connected_flag (read_all data)"
  shows "raw (read_all data) = Some (unpack_be32 data)
         \<and> internal_temp (read_all data) =
             Some (of_int ((unpack_be32 data div 2 ^ 4) mod 2 ^ 11
                           - (if bit (unpack_be32 data) 15 then 0x800 else 0)) * 0.0625)"
proof -
  from assms have "data \<noteq> (0, 0, 0, 0)" "data \<noteq> (0xff, 0xff, 0xff, 0xff)"
    by (simp_all add: read_all_connected_iff)
  then have "read_all data =
      read_all_decode (unpack_be32 data) (init_result (Some (unpack_be32 data)))"
    by (rule read_all_accepted)
  then show ?thesis
    using read_all_raw_connected [OF assms] by (simp add: decode_internal_temp)
qed

theorem read_all_internal_temp_witness:
  "connected_flag (read_all (0x01, 0x91, 0xC0, 0x07))
   \<and> fault (read_all (0x01, 0x91, 0xC0, 0x07)) = Some ''Open Circuit + Short to GND + Short to VCC''
   \<and> raw (read_all (0x01, 0x91, 0xC0, 0x07)) = Some (unpack_be32 (0x01, 0x91, 0xC0, 0x07))
   \<and> unpack_be32 (0x01, 0x91, 0xC0, 0x07) = 0x0191C007
   \<and> internal_temp (read_all (0x01, 0x91, 0xC0, 0x07)) = Some (- 64)"
proof -
  have h: "connected_flag (read_all (0x01, 0x91, 0xC0, 0x07))"
    by (simp add: read_all_faulted_example)
  show ?thesis
    using h read_all_internal_temp [OF h]
    by (simp add: read_all_faulted_example unpack_be32_def)
qed

text \<open>
  C7. The 14-bit two's complement encoding of -160 is 0x3F60; placed in bits 31..18 with
  all other bits zero it is the frame 0xFD800000, and \<^verbatim>\<open>read_all\<close> decodes that frame
  to a thermocouple temperature of -40.0, an internal temperature of 0.0 and no fault.
\<close>

theorem negative_round_trip:
  "uint (word_of_int (- 160) :: 14 word) = 0x3F60
   \<and> push_bit 18 (0x3F60::int) = 0xFD800000
   \<and> unpack_be32 (0xFD, 0x80, 0x00, 0x00) = 0xFD800000
   \<and> read_all_decode 0xFD800000 (init_result (Some 0xFD800000)) =
       \<lparr>tc_temp = Some (- 40), internal_temp = Some 0, fault = None,
        raw = Some 0xFD800000, connected_flag = True\<rparr>
   \<and> read_all (0xFD, 0x80, 0x00, 0x00) =
       \<lparr>tc_temp = Some (- 40), internal_temp = Some 0, fault = None,
        raw = Some 0xFD800000, connected_flag = True\<rparr>"
proof -
  have a: "uint (word_of_int (- 160) :: 14 word) = 0x3F60" by simp
  have b: "push_bit 18 (0x3F60::int) = 0xFD800000" by simp
  have c: "unpack_be32 (0xFD, 0x80, 0x00, 0x00) = 0xFD800000" by (simp add: unpack_be32_def)
  have d: "read_all_decode 0xFD800000 (init_result (Some 0xFD800000)) =
       \<lparr>tc_temp = Some (- 40), internal_temp = Some 0, fault = None,
        raw = Some 0xFD800000, connected_flag = True\<rparr>"
    by (simp add: read_all_decode_def init_result_def truthy_def FAULT_GENERIC_def)
  have e: "read_all (0xFD, 0x80, 0x00, 0x00) =
       read_all_decode 0xFD800000 (init_result (Some 0xFD800000))"
    using read_all_accepted [of "(0xFD, 0x80, 0x00, 0x00)"] by (simp add: c)
  show ?thesis using a b c d e by simp
qed

text \<open>
  C8. When the transaction fails (the frame is all zeros or all ones), \<^verbatim>\<open>read_all\<close>
  returns a reading that is not connected, with raw value and both temperatures absent,
  whose fault is the transport error message of \<^verbatim>\<open>read_raw\<close>; that message is not
  one \<^verbatim>\<open>get_fault_string\<close> can produce.
\<close>

theorem read_all_transport_failure:
  assumes "fst (read_raw data) = None"
  shows "read_all data =
           \<lparr>tc_temp = None, internal_temp = None, fault = snd (read_raw data), raw = None,
            connected_flag = False\<rparr>
         \<and> (data = (0x00, 0x00, 0x00, 0x00)
              \<and> fault (read_all data) = Some ''No SPI response (disconnected)''
            \<or> data = (0xff, 0xff, 0xff, 0xff)
              \<and> fault (read_all data) = Some ''SPI bus error (all high)'')
         \<and> (\<forall>v. get_fault_string v \<noteq> fault (read_all data))"
proof -
  from assms have d: "data = (0, 0, 0, 0) \<or> data = (0xff, 0xff, 0xff, 0xff)"
    by (simp add: read_raw_def split: if_splits)
  then have r: "read_all data = (init_result None)\<lparr>fault := snd (read_raw data)\<rparr>"
    by (rule read_all_rejected)
  have m: "data = (0, 0, 0, 0) \<and> snd (read_raw data) = Some ''No SPI response (disconnected)''
      \<or> data = (0xff, 0xff, 0xff, 0xff) \<and> snd (read_raw data) = Some ''SPI bus error (all high)''"
    using d by (auto simp add: read_raw_def)
  have f: "fault (read_all data) = snd (read_raw data)" by (simp add: r)
  have n: "\<forall>v. get_fault_string v \<noteq> fault (read_all data)"
    using m get_fault_string_not_transport unfolding f by metis
  show ?thesis using r m n f by (simp add: init_result_def)
qed

theorem read_all_transport_failure_witness:
  "fst (read_raw (0x00, 0x00, 0x00, 0x00)) = None
   \<and> read_all (0x00, 0x00, 0x00, 0x00) =
       \<lparr>tc_temp = None, internal_temp = None,
        fault = Some ''No SPI response (disconnected)'', raw = None, connected_flag = False\<rparr>
   \<and> fst (read_raw (0xff, 0xff, 0xff, 0xff)) = None
   \<and> read_all (0xff, 0xff, 0xff, 0xff) =
       \<lparr>tc_temp = None, internal_temp = None,
        fault = Some ''SPI bus error (all high)'', raw = None, connected_flag = False\<rparr>"
proof -
  have h: "fst (read_raw (0x00, 0x00, 0x00, 0x00)) = None" by (simp add: read_raw_def)
  have k: "fst (read_raw (0xff, 0xff, 0xff, 0xff)) = None" by (simp add: read_raw_def)
  show ?thesis
    using h k read_all_transport_failure [OF h] read_all_transport_failure [OF k]
    by (simp add: read_raw_def)
qed

text \<open>
  C9. \<^verbatim>\<open>read_temp_c\<close> returns \<^verbatim>\<open>False\<close> exactly when the transport failed,
  \<^verbatim>\<open>None\<close> exactly when the sensor is connected and a fault is present, and
  otherwise the decoded thermocouple temperature as a number.
\<close>

theorem read_temp_c_three_meanings:
  "(fst (read_temp_c data) = PyFalse \<longleftrightarrow> fst (read_raw data) = None)
   \<and> (fst (read_temp_c data) = PyNone
        \<longleftrightarrow> fst (read_raw data) \<noteq> None \<and> fault (read_all data) \<noteq> None)
   \<and> ((\<exists>t. fst (read_temp_c data) = PyFloat t \<and> tc_temp (read_all data) = Some t)
        \<longleftrightarrow> fst (read_raw data) \<noteq> None \<and> fault (read_all data) = None)
   \<and> fst (read_temp_c data) =
       (if data = (0x00, 0x00, 0x00, 0x00) \<or> data = (0xff, 0xff, 0xff, 0xff) then PyFalse
        else if bit (unpack_be32 data) 16 then PyNone
        else PyFloat (of_int ((unpack_be32 data div 2 ^ 18) mod 2 ^ 14
                              - (if bit (unpack_be32 data) 31 then 0x4000 else 0)) * 0.25))"
proof (cases "connected_flag (read_all data)")
  case False
  then have d: "data = (0, 0, 0, 0) \<or> data = (0xff, 0xff, 0xff, 0xff)"
    by (simp add: read_all_connected_iff)
  then have "fst (read_raw data) = None" by (auto simp add: read_raw_def)
  with False d show ?thesis by (auto simp add: read_temp_c_value)
next
  case True
  then have d: "data \<noteq> (0, 0, 0, 0)" "data \<noteq> (0xff, 0xff, 0xff, 0xff)"
    by (simp_all add: read_all_connected_iff)
  then have r: "fst (read_raw data) \<noteq> None" by (simp add: read_raw_def)
  note f = read_all_fault_connected [OF True]
  show ?thesis
  proof (cases "bit (unpack_be32 data) 16")
    case b: True
    then have "truthy (fault (read_all data))" using f by (simp add: truthy_get_fault_string)
    moreover from this have "fault (read_all data) \<noteq> None" by (cases "fault (read_all data)") (simp_all add: truthy_def)
    ultimately show ?thesis using True d r b by (simp add: read_temp_c_value)
  next
    case b: False
    define t :: real where "t = of_int ((unpack_be32 data div 2 ^ 18) mod 2 ^ 14
                              - (if bit (unpack_be32 data) 31 then 0x4000 else 0)) * 0.25"
    have fl: "fault (read_all data) = None" using f b by simp
    have tc: "tc_temp (read_all data) = Some t" using f b unfolding t_def by simp
    have v: "fst (read_temp_c data) = PyFloat t"
      using True fl tc by (simp add: read_temp_c_value truthy_def)
    have c1: "fst (read_temp_c data) = PyFalse \<longleftrightarrow> fst (read_raw data) = None"
      using v r by simp
    have c2: "fst (read_temp_c data) = PyNone
        \<longleftrightarrow> fst (read_raw data) \<noteq> None \<and> fault (read_all data) \<noteq> None"
      using v fl by simp
    have c3: "(\<exists>t. fst (read_temp_c data) = PyFloat t \<and> tc_temp (read_all data) = Some t)
        \<longleftrightarrow> fst (read_raw data) \<noteq> None \<and> fault (read_all data) = None"
      using v tc r fl by simp
    have c4: "fst (read_temp_c data) =
       (if data = (0x00, 0x00, 0x00, 0x00) \<or> data = (0xff, 0xff, 0xff, 0xff) then PyFalse
        else if bit (unpack_be32 data) 16 then PyNone
        else PyFloat (of_int ((unpack_be32 data div 2 ^ 18) mod 2 ^ 14
                              - (if bit (unpack_be32 data) 31 then 0x4000 else 0)) * 0.25))"
      using v d b unfolding t_def by simp
    show ?thesis using c1 c2 c3 c4 by (intro conjI)
  qed
qed

text \<open>
  C10. On every frame the transaction accepts, the internal temperature is an integer
  multiple of 0.0625 in \<open>[-128, 127.9375]\<close>, and the thermocouple temperature, when
  present, is an integer multiple of 0.25 in \<open>[-2048, 2047.75]\<close>.
\<close>

theorem read_all_temperature_ranges:
  assumes "connected_flag (read_all data)"
  shows "(\<exists>k::int. internal_temp (read_all data) = Some (of_int k * 0.0625)
            \<and> - 128 \<le> (of_int k * 0.0625 :: real) \<and> (of_int k * 0.0625 :: real) \<le> 127.9375)
         \<and> (tc_temp (read_all data) = None
             \<or> (\<exists>k::int. tc_temp (read_all data) = Some (of_int k * 0.25)
                  \<and> - 2048 \<le> (of_int k * 0.25 :: real) \<and> (of_int k * 0.25 :: real) \<le> 2047.75))"
proof -
  let ?v = "unpack_be32 data"
  from assms have d: "data \<noteq> (0, 0, 0, 0)" "data \<noteq> (0xff, 0xff, 0xff, 0xff)"
    by (simp_all add: read_all_connected_iff)
  have ra: "read_all data = read_all_decode ?v (init_result (Some ?v))"
    using d by (rule read_all_accepted)
  define ki where "ki = (?v div 2 ^ 4) mod 2 ^ 11 - (if bit ?v 15 then 0x800 else 0)"
  define kt where "kt = (?v div 2 ^ 18) mod 2 ^ 14 - (if bit ?v 31 then 0x4000 else 0)"
  have i: "internal_temp (read_all data) = Some (of_int ki * 0.0625)"
    unfolding ra ki_def by (rule decode_internal_temp)
  have ir: "- 2048 \<le> ki" "ki \<le> 2047"
    using internal_raw_range [of ?v] unfolding ki_def by simp_all
  then have "- 2048 \<le> (of_int ki :: real)" "(of_int ki :: real) \<le> 2047" by linarith+
  then have ib: "- 128 \<le> (of_int ki * 0.0625 :: real)" "(of_int ki * 0.0625 :: real) \<le> 127.9375"
    by simp_all
  have t: "tc_temp (read_all data) =
      (if bit ?v 16 then None else Some (of_int kt * 0.25))"
    unfolding ra kt_def by (rule decode_tc_temp)
  have tr: "- 8192 \<le> kt" "kt \<le> 8191"
    using tc_raw_range [of ?v] unfolding kt_def by simp_all
  then have "- 8192 \<le> (of_int kt :: real)" "(of_int kt :: real) \<le> 8191" by linarith+
  then have tb: "- 2048 \<le> (of_int kt * 0.25 :: real)" "(of_int kt * 0.25 :: real) \<le> 2047.75"
    by simp_all
  have first: "\<exists>k::int. internal_temp (read_all data) = Some (of_int k * 0.0625)
            \<and> - 128 \<le> (of_int k * 0.0625 :: real) \<and> (of_int k * 0.0625 :: real) \<le> 127.9375"
    using i ib by blast
  have second: "tc_temp (read_all data) = None
             \<or> (\<exists>k::int. tc_temp (read_all data) = Some (of_int k * 0.25)
                  \<and> - 2048 \<le> (of_int k * 0.25 :: real) \<and> (of_int k * 0.25 :: real) \<le> 2047.75)"
  proof (cases "bit ?v 16")
    case True
    with t show ?thesis by simp
  next
    case False
    with t have "tc_temp (read_all data) = Some (of_int kt * 0.25)" by simp
    with tb show ?thesis by blast
  qed
  from first second show ?thesis by (rule conjI)
qed

theorem read_all_temperature_ranges_witness:
  "connected_flag (read_all (0x01, 0x90, 0xC0, 0x07))
   \<and> internal_temp (read_all (0x01, 0x90, 0xC0, 0x07)) = Some (- 64)
   \<and> tc_temp (read_all (0x01, 0x90, 0xC0, 0x07)) = Some 25
   \<and> (\<exists>k::int. internal_temp (read_all (0x01, 0x90, 0xC0, 0x07)) = Some (of_int k * 0.0625)
         \<and> - 128 \<le> (of_int k * 0.0625 :: real) \<and> (of_int k * 0.0625 :: real) \<le> 127.9375)
   \<and> (\<exists>k::int. tc_temp (read_all (0x01, 0x90, 0xC0, 0x07)) = Some (of_int k * 0.25)
         \<and> - 2048 \<le> (of_int k * 0.25 :: real) \<and> (of_int k * 0.25 :: real) \<le> 2047.75)"
proof -
  have h: "connected_flag (read_all (0x01, 0x90, 0xC0, 0x07))"
    by (simp add: read_all_clean_example)
  have e: "tc_temp (read_all (0x01, 0x90, 0xC0, 0x07)) \<noteq> None"
    "internal_temp (read_all (0x01, 0x90, 0xC0, 0x07)) = Some (- 64)"
    "tc_temp (read_all (0x01, 0x90, 0xC0, 0x07)) = Some 25"
    by (simp_all add: read_all_clean_example)
  note c = read_all_temperature_ranges [OF h]
  from c have first: "\<exists>k::int. internal_temp (read_all (0x01, 0x90, 0xC0, 0x07)) = Some (of_int k * 0.0625)
         \<and> - 128 \<le> (of_int k * 0.0625 :: real) \<and> (of_int k * 0.0625 :: real) \<le> 127.9375"
    by (rule conjunct1)
  from c have "tc_temp (read_all (0x01, 0x90, 0xC0, 0x07)) = None
     \<or> (\<exists>k::int. tc_temp (read_all (0x01, 0x90, 0xC0, 0x07)) = Some (of_int k * 0.25)
         \<and> - 2048 \<le> (of_int k * 0.25 :: real) \<and> (of_int k * 0.25 :: real) \<le> 2047.75)"
    by (rule conjunct2)
  then have second: "\<exists>k::int. tc_temp (read_all (0x01, 0x90, 0xC0, 0x07)) = Some (of_int k * 0.25)
         \<and> - 2048 \<le> (of_int k * 0.25 :: real) \<and> (of_int k * 0.25 :: real) \<le> 2047.75"
  proof (rule disjE)
    assume "tc_temp (read_all (0x01, 0x90, 0xC0, 0x07)) = None"
    with e(1) show ?thesis by (rule notE)
  qed
  from h e(2) e(3) first second show ?thesis by (intro conjI)
qed

end
